theory Spec2Isabelle
  imports Main
begin

section \<open>Python values, exceptions and the outside world\<close>

text \<open>
  The development embeds \<^verbatim>\<open>libs/python/playground_query_executor.py\<close> (class
  \<^verbatim>\<open>PlaygroundQueryExecutor\<close>) and the retry arguments of
  \<^verbatim>\<open>etl_athena_load_api.py\<close>.

  A Python \<^verbatim>\<open>str\<close> is a \<^typ>\<open>string\<close>; each \<^typ>\<open>char\<close> stands for one code point
  (0 to 255), so a character is ASCII exactly when its code is below 128. A \<^verbatim>\<open>bytes\<close>
  object is a \<^typ>\<open>string\<close> as well, one \<^typ>\<open>char\<close> per byte.

  A value decoded from a JSON body is a \<open>json\<close>; Python's \<^verbatim>\<open>None\<close> is \<open>JNull\<close>. A dict
  is an association list read with \<^const>\<open>map_of\<close>. Floating point numbers are left out.
\<close>

datatype json =
    JNull
  | JBool bool
  | JInt int
  | JStr string
  | JList "json list"
  | JDict "(string \<times> json) list"

text \<open>
  The exceptions the code can raise. \<open>Exception v\<close> is the builtin class
  \<^verbatim>\<open>Exception\<close> raised with the single argument \<open>v\<close>; the module defines no exception
  class of its own.
\<close>

datatype error =
    Exception json
  | KeyError string
  | TypeError
  | AttributeError
  | ValueError
  | UnicodeEncodeError
  | UnicodeDecodeError
  | BinasciiError
  | DownloadError string

text \<open>\<^verbatim>\<open>obj.get(key)\<close>, \<^verbatim>\<open>obj.get(key, default)\<close> and \<^verbatim>\<open>obj[key]\<close> with a string key.\<close>

fun py_get_default :: "json \<Rightarrow> string \<Rightarrow> json \<Rightarrow> error + json" where
  "py_get_default (JDict d) k dflt = Inr (case map_of d k of None \<Rightarrow> dflt | Some v \<Rightarrow> v)"
| "py_get_default JNull k dflt = Inl AttributeError"
| "py_get_default (JBool b) k dflt = Inl AttributeError"
| "py_get_default (JInt i) k dflt = Inl AttributeError"
| "py_get_default (JStr s) k dflt = Inl AttributeError"
| "py_get_default (JList l) k dflt = Inl AttributeError"

definition py_get :: "json \<Rightarrow> string \<Rightarrow> error + json" where
  "py_get obj k = py_get_default obj k JNull"

fun py_getitem :: "json \<Rightarrow> string \<Rightarrow> error + json" where
  "py_getitem (JDict d) k = (case map_of d k of None \<Rightarrow> Inl (KeyError k) | Some v \<Rightarrow> Inr v)"
| "py_getitem JNull k = Inl TypeError"
| "py_getitem (JBool b) k = Inl TypeError"
| "py_getitem (JInt i) k = Inl TypeError"
| "py_getitem (JStr s) k = Inl TypeError"
| "py_getitem (JList l) k = Inl TypeError"

fun dict_keys :: "json \<Rightarrow> string list" where
  "dict_keys (JDict d) = map fst d"
| "dict_keys JNull = []"
| "dict_keys (JBool b) = []"
| "dict_keys (JInt i) = []"
| "dict_keys (JStr s) = []"
| "dict_keys (JList l) = []"

subsection \<open>\<^verbatim>\<open>str.encode("ascii")\<close> and \<^verbatim>\<open>bytes.decode("ascii")\<close>\<close>

definition is_ascii :: "string \<Rightarrow> bool" where
  "is_ascii s = list_all (\<lambda>c. (of_char c :: nat) < 128) s"

definition encode_ascii :: "string \<Rightarrow> error + string" where
  "encode_ascii s = (if is_ascii s then Inr s else Inl UnicodeEncodeError)"

definition decode_ascii :: "string \<Rightarrow> error + string" where
  "decode_ascii bs = (if is_ascii bs then Inr bs else Inl UnicodeDecodeError)"

subsection \<open>Base64 (RFC 4648, standard alphabet, with padding)\<close>

text \<open>
  \<^verbatim>\<open>base64.b64encode\<close> belongs to the Python standard library. It is written out here:
  three bytes become four sextets, each sextet the index of a letter of the alphabet; a
  last group of one or two bytes is filled with zero bits and padded with \<^verbatim>\<open>=\<close>.
\<close>

definition b64_alphabet :: string where
  "b64_alphabet = ''ABCDEFGHIJKLMNOPQRSTUVWXYZabcdefghijklmnopqrstuvwxyz0123456789+/''"

definition b64_char :: "nat \<Rightarrow> char" where
  "b64_char n = b64_alphabet ! n"

fun b64encode :: "string \<Rightarrow> string" where
  "b64encode [] = []"
| "b64encode [a] =
     [b64_char (of_char a div 4),
      b64_char ((of_char a mod 4) * 16),
      CHR ''='', CHR ''='']"
| "b64encode [a, b] =
     [b64_char (of_char a div 4),
      b64_char ((of_char a mod 4) * 16 + of_char b div 16),
      b64_char ((of_char b mod 16) * 4),
      CHR ''='']"
| "b64encode (a # b # c # rest) =
     b64_char (of_char a div 4) #
     b64_char ((of_char a mod 4) * 16 + of_char b div 16) #
     b64_char ((of_char b mod 16) * 4 + of_char c div 64) #
     b64_char (of_char c mod 64) #
     b64encode rest"

text \<open>
  The decoder of the same RFC, as \<^verbatim>\<open>base64.b64decode\<close> computes it on padded input
  over the alphabet: four letters give three bytes, and padding is accepted in the last
  group only. Anything else is \<^verbatim>\<open>binascii.Error\<close>.
\<close>

fun index_of :: "'a \<Rightarrow> 'a list \<Rightarrow> nat option" where
  "index_of x [] = None"
| "index_of x (y # ys) = (if x = y then Some 0 else map_option Suc (index_of x ys))"

definition b64_value :: "char \<Rightarrow> nat option" where
  "b64_value c = index_of c b64_alphabet"

fun b64decode :: "string \<Rightarrow> error + string" where
  "b64decode [] = Inr []"
| "b64decode [c1] = Inl BinasciiError"
| "b64decode [c1, c2] = Inl BinasciiError"
| "b64decode [c1, c2, c3] = Inl BinasciiError"
| "b64decode (c1 # c2 # c3 # c4 # rest) =
     (if rest = [] \<and> c4 = CHR ''='' then
        (if c3 = CHR ''='' then
           (case (b64_value c1, b64_value c2) of
              (Some v1, Some v2) \<Rightarrow> Inr [char_of (v1 * 4 + v2 div 16)]
            | _ \<Rightarrow> Inl BinasciiError)
         else
           (case (b64_value c1, b64_value c2, b64_value c3) of
              (Some v1, Some v2, Some v3) \<Rightarrow>
                Inr [char_of (v1 * 4 + v2 div 16), char_of ((v2 mod 16) * 16 + v3 div 4)]
            | _ \<Rightarrow> Inl BinasciiError))
      else
        (case (b64_value c1, b64_value c2, b64_value c3, b64_value c4) of
           (Some v1, Some v2, Some v3, Some v4) \<Rightarrow>
             (case b64decode rest of
                Inl e \<Rightarrow> Inl e
              | Inr bs \<Rightarrow>
                  Inr (char_of (v1 * 4 + v2 div 16) #
                       char_of ((v2 mod 16) * 16 + v3 div 4) #
                       char_of ((v3 mod 4) * 64 + v4) # bs))
         | _ \<Rightarrow> Inl BinasciiError))"

section \<open>The executor\<close>

text \<open>
  What \<^verbatim>\<open>self.api.make_request\<close> hands back: a \<^verbatim>\<open>requests.Response\<close> with its
  \<^verbatim>\<open>status_code\<close>, its \<^verbatim>\<open>reason\<close> and the outcome of \<^verbatim>\<open>response.json()\<close> (\<open>Inl\<close> the
  text of the exception it raises on a body that is not JSON), or some other object that
  has no attribute \<^verbatim>\<open>status_code\<close>.
\<close>

datatype response =
    Response int string "string + json"
  | Plain json

text \<open>
  The API client: its base URL and, for the \<open>n\<close>-th call of \<^verbatim>\<open>make_request\<close> (counted
  from 0), what the remote service answers.
\<close>

record api_wrapper =
  url :: string
  reply :: "nat \<Rightarrow> response"

record executor =
  api :: api_wrapper
  query :: string
  work_group :: string
  query_target_location :: string
  assume_role :: string
  retry :: int
  delay :: int

text \<open>The constructor with its keyword defaults; \<open>None\<close> is an argument left out.\<close>

definition PlaygroundQueryExecutor ::
  "api_wrapper \<Rightarrow> string \<Rightarrow> string option \<Rightarrow> string option \<Rightarrow> string option \<Rightarrow>
   int option \<Rightarrow> int option \<Rightarrow> executor" where
  "PlaygroundQueryExecutor api_arg query_arg work_group_arg query_target_location_arg
       assume_role_arg retry_arg delay_arg =
     \<lparr> api = api_arg,
       query = query_arg,
       work_group = (case work_group_arg of None \<Rightarrow> ''primary'' | Some v \<Rightarrow> v),
       query_target_location =
         (case query_target_location_arg of None \<Rightarrow> ''athena'' | Some v \<Rightarrow> v),
       assume_role = (case assume_role_arg of None \<Rightarrow> ''no'' | Some v \<Rightarrow> v),
       retry = (case retry_arg of None \<Rightarrow> 5 | Some v \<Rightarrow> v),
       delay = (case delay_arg of None \<Rightarrow> 60 | Some v \<Rightarrow> v) \<rparr>"

subsection \<open>\<^verbatim>\<open>build_query_payload\<close>\<close>

text \<open>
  The payload is the dict handed to \<^verbatim>\<open>json.dumps\<close>, as a \<open>json\<close> value; its
  serialisation to text is not modelled. Calls of the logger and of \<^verbatim>\<open>print\<close> change
  neither the control flow nor a result and are left out throughout.
\<close>

definition build_query_payload :: "executor \<Rightarrow> error + json" where
  "build_query_payload self =
     (case encode_ascii (query self) of
        Inl e \<Rightarrow> Inl e
      | Inr query_bytes \<Rightarrow>
          (case decode_ascii (b64encode query_bytes) of
             Inl e \<Rightarrow> Inl e
           | Inr query_base64_string \<Rightarrow>
               if query_target_location self = ''athena'' then
                 Inr (JDict [(''QueryString'', JStr query_base64_string),
                             (''Encoding'', JStr ''base64''),
                             (''WorkGroup'', JStr (work_group self)),
                             (''AssumeRole'', JStr (assume_role self))])
               else
                 Inr (JDict [(''QueryString'', JStr query_base64_string),
                             (''Encoding'', JStr ''base64''),
                             (''QueryTargetLocation'', JStr (query_target_location self))])))"

subsection \<open>Requests, sleeps and the API contract\<close>

text \<open>
  The world is the list of effects performed so far, oldest first: calls of
  \<^verbatim>\<open>make_request\<close> (method, endpoint, body; the headers are the constant JSON content
  type), calls of \<^verbatim>\<open>time.sleep\<close> and the download of a result. The two endpoints
  \<^verbatim>\<open>f"{self.api._url}/queries"\<close> and \<^verbatim>\<open>f"{self.api._url}/queries/{query_id}"\<close> are kept
  unformatted.
\<close>

datatype endpoint =
    Queries string
  | QueryById string json

datatype event =
    MakeRequest string endpoint "json option"
  | Sleep int
  | Download json

type_synonym world = "event list"

fun is_request :: "event \<Rightarrow> bool" where
  "is_request (MakeRequest m u b) = True"
| "is_request (Sleep s) = False"
| "is_request (Download l) = False"

fun is_sleep :: "event \<Rightarrow> bool" where
  "is_sleep (MakeRequest m u b) = False"
| "is_sleep (Sleep s) = True"
| "is_sleep (Download l) = False"

definition n_requests :: "world \<Rightarrow> nat" where
  "n_requests w = length (filter is_request w)"

definition make_request ::
  "api_wrapper \<Rightarrow> string \<Rightarrow> endpoint \<Rightarrow> json option \<Rightarrow> world \<Rightarrow> response \<times> world" where
  "make_request a method custom_url body w =
     (reply a (n_requests w), w @ [MakeRequest method custom_url body])"

text \<open>\<^verbatim>\<open>time.sleep\<close> raises \<^verbatim>\<open>ValueError\<close> on a negative length.\<close>

definition sleep :: "int \<Rightarrow> world \<Rightarrow> (error + unit) \<times> world" where
  "sleep secs w = (if secs < 0 then (Inl ValueError, w) else (Inr (), w @ [Sleep secs]))"

text \<open>The dict built by \<^verbatim>\<open>_custom_json_response\<close>.\<close>

record json_resp =
  exitcode :: int
  message :: "string option"
  data :: json
  response :: "response option"

definition custom_json_response :: "response \<Rightarrow> int \<Rightarrow> string option \<Rightarrow> json_resp" where
  "custom_json_response resp exitcode_arg message_arg =
     (case resp of
        Response status_code reason body \<Rightarrow>
          (if status_code = 200 then
             (case body of
                Inl ex \<Rightarrow>
                  \<lparr> exitcode = 1, message = Some (''Failed to parse response: '' @ ex),
                    data = JNull, response = None \<rparr>
              | Inr d \<Rightarrow>
                  \<lparr> exitcode = 0, message = Some ''Success'',
                    data = d, response = Some resp \<rparr>)
           else
             (case body of
                Inl ex \<Rightarrow>
                  \<lparr> exitcode = 1, message = Some (''Failed to parse response: '' @ ex),
                    data = JNull, response = None \<rparr>
              | Inr d \<Rightarrow>
                  \<lparr> exitcode = status_code, message = Some (''Failed with error '' @ reason),
                    data = d, response = Some resp \<rparr>))
      | Plain obj \<Rightarrow>
          \<lparr> exitcode = exitcode_arg, message = message_arg, data = obj, response = None \<rparr>)"

definition safe_api_call ::
  "executor \<Rightarrow> string \<Rightarrow> endpoint \<Rightarrow> json option \<Rightarrow> world \<Rightarrow> (error + json_resp) \<times> world" where
  "safe_api_call self method custom_url body w =
     (case make_request (api self) method custom_url body w of
        (resp, w1) \<Rightarrow>
          (let jr = custom_json_response resp 0 None in
           if exitcode jr \<noteq> 0 then
             (Inl (Exception (JStr (''API call failed: '' @
                     (case message jr of None \<Rightarrow> ''None'' | Some m \<Rightarrow> m)))), w1)
           else (Inr jr, w1)))"

subsection \<open>\<^verbatim>\<open>submit_query\<close> and \<^verbatim>\<open>poll_query_status\<close>\<close>

definition submit_query :: "executor \<Rightarrow> json \<Rightarrow> world \<Rightarrow> (error + json_resp) \<times> world" where
  "submit_query self payload w =
     safe_api_call self ''POST'' (Queries (url (api self))) (Some payload) w"

text \<open>
  The \<^verbatim>\<open>while\<close> loop of \<^verbatim>\<open>poll_query_status\<close>. The counter \<open>attempt\<close> is the method's
  parameter \<^verbatim>\<open>retry\<close> (1 unless the caller passes it), compared with \<^verbatim>\<open>self.retry\<close>.
\<close>

function poll_loop ::
  "executor \<Rightarrow> endpoint \<Rightarrow> json_resp \<Rightarrow> json \<Rightarrow> int \<Rightarrow> world \<Rightarrow> (error + json_resp) \<times> world" where
  "poll_loop self api_endpoint resp query_status attempt w =
     (if query_status = JStr ''RUNNING'' \<and> attempt \<le> retry self then
        (case safe_api_call self ''GET'' api_endpoint None w of
           (Inl e, w1) \<Rightarrow> (Inl e, w1)
         | (Inr resp1, w1) \<Rightarrow>
             (case py_get (data resp1) ''QueryStatus'' of
                Inl e \<Rightarrow> (Inl e, w1)
              | Inr query_status1 \<Rightarrow>
                  if query_status1 \<noteq> JStr ''RUNNING'' then (Inr resp1, w1)
                  else
                    (case sleep (delay self) w1 of
                       (Inl e, w2) \<Rightarrow> (Inl e, w2)
                     | (Inr u, w2) \<Rightarrow>
                         poll_loop self api_endpoint resp1 query_status1 (attempt + 1) w2)))
      else (Inr resp, w))"
  by pat_completeness auto
termination
  by (relation "measure (\<lambda>(self, api_endpoint, resp, query_status, attempt, w).
                  nat (retry self + 1 - attempt))") auto

definition poll_query_status ::
  "executor \<Rightarrow> json \<Rightarrow> int \<Rightarrow> world \<Rightarrow> (error + json_resp) \<times> world" where
  "poll_query_status self query_id attempt w =
     (case safe_api_call self ''GET'' (QueryById (url (api self)) query_id) None w of
        (Inl e, w1) \<Rightarrow> (Inl e, w1)
      | (Inr resp, w1) \<Rightarrow>
          (case py_get (data resp) ''QueryStatus'' of
             Inl e \<Rightarrow> (Inl e, w1)
           | Inr query_status \<Rightarrow>
               (case sleep 20 w1 of
                  (Inl e, w2) \<Rightarrow> (Inl e, w2)
                | (Inr u, w2) \<Rightarrow>
                    poll_loop self (QueryById (url (api self)) query_id)
                      resp query_status attempt w2)))"

subsection \<open>\<^verbatim>\<open>run\<close> and \<^verbatim>\<open>fetch_query_results\<close>\<close>

definition run :: "executor \<Rightarrow> world \<Rightarrow> (error + json_resp) \<times> world" where
  "run self w =
     (case build_query_payload self of
        Inl e \<Rightarrow> (Inl e, w)
      | Inr query_payload \<Rightarrow>
          (case submit_query self query_payload w of
             (Inl e, w1) \<Rightarrow> (Inl e, w1)
           | (Inr resp, w1) \<Rightarrow>
               (case py_getitem (data resp) ''QueryId'' of
                  Inl e \<Rightarrow> (Inl e, w1)
                | Inr query_id \<Rightarrow>
                    (case poll_query_status self query_id 1 w1 of
                       (Inl e, w2) \<Rightarrow> (Inl e, w2)
                     | (Inr query_status_response, w2) \<Rightarrow>
                         (case py_getitem (data query_status_response) ''QueryStatus'' of
                            Inl e \<Rightarrow> (Inl e, w2)
                          | Inr st \<Rightarrow>
                              if st = JStr ''SUCCEEDED'' then (Inr query_status_response, w2)
                              else if st = JStr ''RUNNING'' then (Inr query_status_response, w2)
                              else
                                (case py_get (data query_status_response) ''Message'' of
                                   Inl e \<Rightarrow> (Inl e, w2)
                                 | Inr m \<Rightarrow> (Inl (Exception m), w2)))))))"

text \<open>
  \<^verbatim>\<open>requests.get(download_link)\<close> followed by \<^verbatim>\<open>pd.read_csv\<close> is the parameter
  \<open>read_csv\<close>: from the link to a data frame, or to the exception either of them raises.
  A result of \<open>None\<close> is the method falling off its end.
\<close>

definition fetch_query_results ::
  "(json \<Rightarrow> error + 'df) \<Rightarrow> executor \<Rightarrow> world \<Rightarrow> (error + 'df option) \<times> world" where
  "fetch_query_results read_csv self w =
     (case run self w of
        (Inl e, w1) \<Rightarrow> (Inl e, w1)
      | (Inr query_response, w1) \<Rightarrow>
          (case py_getitem (data query_response) ''QueryStatus'' of
             Inl e \<Rightarrow> (Inl e, w1)
           | Inr query_status \<Rightarrow>
               if query_status = JStr ''SUCCEEDED'' then
                 (case py_getitem (data query_response) ''ResultsDownloadLink'' of
                    Inl e \<Rightarrow> (Inl e, w1)
                  | Inr download_link \<Rightarrow>
                      (case read_csv download_link of
                         Inl e \<Rightarrow> (Inl e, w1 @ [Download download_link])
                       | Inr pd_df \<Rightarrow> (Inr (Some pd_df), w1 @ [Download download_link])))
               else if query_status = JStr ''RUNNING'' then
                 (Inl (Exception (JStr ''Query still running after retries.'')), w1)
               else if query_status = JStr ''FAILED'' then
                 (case py_get_default (data query_response) ''Message'' (JStr ''Unknown error'') of
                    Inl e \<Rightarrow> (Inl e, w1)
                  | Inr error_message \<Rightarrow> (Inl (Exception error_message), w1))
               else
                 (case py_get_default (data query_response) ''Message'' (JStr []) of
                    Inl e \<Rightarrow> (Inl e, w1)
                  | Inr status_message \<Rightarrow> (Inr None, w1))))"

subsection \<open>The retry arguments of the job (\<^verbatim>\<open>etl_athena_load_api.py\<close>)\<close>

text \<open>
  \<^verbatim>\<open>main\<close> fills the optional job arguments from \<^verbatim>\<open>optional_args\<close> unless the argument
  is on the command line. \<^verbatim>\<open>getResolvedOptions\<close> (of \<^verbatim>\<open>awsglue\<close>) and the parsing of a
  string by \<^verbatim>\<open>int\<close> are parameters.
\<close>

definition optional_args :: "(string \<times> json) list" where
  "optional_args =
     [(''work_group'', JStr ''primary''),
      (''query_target_location'', JStr ''athena''),
      (''assume_role'', JStr ''no''),
      (''query_status_retry'', JInt 20),
      (''query_status_retry_delay'', JInt 15)]"

definition resolve_optional_args ::
  "(string list \<Rightarrow> string \<Rightarrow> string) \<Rightarrow> string list \<Rightarrow> (string \<times> json) list" where
  "resolve_optional_args getResolvedOptions argv =
     map (\<lambda>(k, v).
            (k, if (''--'' @ k) \<in> set argv \<or> k \<in> set argv
                then JStr (getResolvedOptions argv k) else v))
         optional_args"

fun py_int :: "(string \<Rightarrow> error + int) \<Rightarrow> json \<Rightarrow> error + int" where
  "py_int int_of_str (JInt i) = Inr i"
| "py_int int_of_str (JStr s) = int_of_str s"
| "py_int int_of_str (JBool b) = Inr (if b then 1 else 0)"
| "py_int int_of_str JNull = Inl TypeError"
| "py_int int_of_str (JList l) = Inl TypeError"
| "py_int int_of_str (JDict d) = Inl TypeError"

text \<open>The executor that \<^verbatim>\<open>execute_db_query\<close> constructs, with that function's own defaults.\<close>

definition execute_db_query_executor ::
  "api_wrapper \<Rightarrow> string \<Rightarrow> string option \<Rightarrow> string option \<Rightarrow> string option \<Rightarrow>
   int option \<Rightarrow> int option \<Rightarrow> executor" where
  "execute_db_query_executor api_arg athena_query work_group_arg query_target_location_arg
       assume_role_arg retry_arg delay_arg =
     PlaygroundQueryExecutor api_arg athena_query
       (Some (case work_group_arg of None \<Rightarrow> ''primary'' | Some v \<Rightarrow> v))
       (Some (case query_target_location_arg of None \<Rightarrow> ''athena'' | Some v \<Rightarrow> v))
       (Some (case assume_role_arg of None \<Rightarrow> ''no'' | Some v \<Rightarrow> v))
       (Some (case retry_arg of None \<Rightarrow> 5 | Some v \<Rightarrow> v))
       (Some (case delay_arg of None \<Rightarrow> 60 | Some v \<Rightarrow> v))"

text \<open>
  The executor that \<^verbatim>\<open>main\<close> runs for the SQL text \<open>sql\<close>: the first three arguments come
  from \<^verbatim>\<open>optional_args\<close> itself, the retry count and delay from the resolved arguments,
  each through \<^verbatim>\<open>int\<close>. The first three fields of an executor are strings here, as the
  entries of \<^verbatim>\<open>optional_args\<close> are; the last case only serves the typing.
\<close>

definition main_executor ::
  "(string list \<Rightarrow> string \<Rightarrow> string) \<Rightarrow> (string \<Rightarrow> error + int) \<Rightarrow> api_wrapper \<Rightarrow>
   string list \<Rightarrow> string \<Rightarrow> error + executor" where
  "main_executor getResolvedOptions int_of_str api_arg argv sql =
     (let args = JDict (resolve_optional_args getResolvedOptions argv) in
      case py_getitem (JDict optional_args) ''work_group'' of
        Inl e \<Rightarrow> Inl e
      | Inr wg \<Rightarrow>
      (case py_getitem (JDict optional_args) ''query_target_location'' of
        Inl e \<Rightarrow> Inl e
      | Inr qtl \<Rightarrow>
      (case py_getitem (JDict optional_args) ''assume_role'' of
        Inl e \<Rightarrow> Inl e
      | Inr ar \<Rightarrow>
      (case py_getitem args ''query_status_retry'' of
        Inl e \<Rightarrow> Inl e
      | Inr r \<Rightarrow>
      (case py_int int_of_str r of
        Inl e \<Rightarrow> Inl e
      | Inr retry_arg \<Rightarrow>
      (case py_getitem args ''query_status_retry_delay'' of
        Inl e \<Rightarrow> Inl e
      | Inr d \<Rightarrow>
      (case py_int int_of_str d of
        Inl e \<Rightarrow> Inl e
      | Inr delay_arg \<Rightarrow>
          (case (wg, qtl, ar) of
             (JStr wg_s, JStr qtl_s, JStr ar_s) \<Rightarrow>
               Inr (execute_db_query_executor api_arg sql (Some wg_s) (Some qtl_s) (Some ar_s)
                      (Some retry_arg) (Some delay_arg))
           | _ \<Rightarrow> Inl TypeError))))))))"

section \<open>Notions used in the statements\<close>

text \<open>
  What \<^const>\<open>safe_api_call\<close> makes of a reply: its snapshot, the exception raised when the
  reply is rejected, and the query status a poll reads from it (\<open>None\<close> when the reply is
  rejected or carries no dict).
\<close>

definition snapshot :: "response \<Rightarrow> json_resp" where
  "snapshot r = custom_json_response r 0 None"

definition api_error :: "response \<Rightarrow> error" where
  "api_error r =
     Exception (JStr (''API call failed: '' @
       (case message (snapshot r) of None \<Rightarrow> ''None'' | Some m \<Rightarrow> m)))"

definition observed_status :: "response \<Rightarrow> json option" where
  "observed_status r =
     (if exitcode (snapshot r) = 0 then
        (case py_get (data (snapshot r)) ''QueryStatus'' of
           Inl e \<Rightarrow> None
         | Inr st \<Rightarrow> Some st)
      else None)"

text \<open>
  The submission made by \<^const>\<open>run\<close> from the world \<open>w\<close> goes through: the query is
  ASCII, the reply to the POST is accepted and its body carries the query id.
\<close>

definition submitted :: "executor \<Rightarrow> world \<Rightarrow> json \<Rightarrow> bool" where
  "submitted self w query_id =
     (is_ascii (query self) \<and>
      exitcode (snapshot (reply (api self) (n_requests w))) = 0 \<and>
      py_getitem (data (snapshot (reply (api self) (n_requests w)))) ''QueryId'' = Inr query_id)"

text \<open>The effects of \<open>n\<close> passes through the retry loop that each find the query running.\<close>

definition running_passes :: "executor \<Rightarrow> endpoint \<Rightarrow> nat \<Rightarrow> event list" where
  "running_passes self api_endpoint n =
     concat (replicate n [MakeRequest ''GET'' api_endpoint None, Sleep (delay self)])"

text \<open>Concrete remotes and executors on which the statements are evaluated.\<close>

definition status_response :: "(string \<times> json) list \<Rightarrow> response" where
  "status_response extra = Response 200 ''OK'' (Inr (JDict ((''QueryId'', JStr ''q-1'') # extra)))"

definition demo_api :: "(nat \<Rightarrow> response) \<Rightarrow> api_wrapper" where
  "demo_api f = \<lparr> url = ''https://api.example'', reply = f \<rparr>"

definition demo_executor :: "(nat \<Rightarrow> response) \<Rightarrow> int \<Rightarrow> executor" where
  "demo_executor f n =
     PlaygroundQueryExecutor (demo_api f) ''SELECT 1'' None None None (Some n) (Some 15)"

definition no_download :: "json \<Rightarrow> error + unit" where
  "no_download download_link = Inl (DownloadError ''unreachable'')"

definition always :: "response \<Rightarrow> nat \<Rightarrow> response" where
  "always r n = r"


text \<open>
  Reading the SQL text back from a payload: the \<^verbatim>\<open>QueryString\<close> field, base64-decoded,
  then decoded as ASCII.
\<close>

definition decoded_query :: "json \<Rightarrow> error + string" where
  "decoded_query payload =
     (case py_getitem payload ''QueryString'' of
        Inl e \<Rightarrow> Inl e
      | Inr v \<Rightarrow>
          (case v of
             JStr qs \<Rightarrow> (case b64decode qs of Inl e \<Rightarrow> Inl e | Inr bs \<Rightarrow> decode_ascii bs)
           | _ \<Rightarrow> Inl TypeError))"

section \<open>Base64 round trip\<close>

lemma b64_alphabet_length: "length b64_alphabet = 64"
  by (simp add: b64_alphabet_def)

lemma b64_alphabet_distinct: "distinct b64_alphabet"
  by (simp add: b64_alphabet_def)

lemma b64_alphabet_ascii: "is_ascii b64_alphabet"
  by (simp add: b64_alphabet_def is_ascii_def)

lemma b64_alphabet_no_pad: "CHR ''='' \<notin> set b64_alphabet"
  by (simp add: b64_alphabet_def)

lemma index_of_nth: "distinct xs \<Longrightarrow> n < length xs \<Longrightarrow> index_of (xs ! n) xs = Some n"
proof (induction xs arbitrary: n)
  case Nil
  then show ?case by simp
next
  case (Cons x xs)
  show ?case
  proof (cases n)
    case 0
    then show ?thesis by simp
  next
    case (Suc m)
    with Cons.prems have "xs ! m \<in> set xs" "x \<notin> set xs" "m < length xs" by auto
    then have "xs ! m \<noteq> x" by auto
    with Cons Suc show ?thesis by simp
  qed
qed

lemma b64_value_char: "n < 64 \<Longrightarrow> b64_value (b64_char n) = Some n"
  by (simp add: b64_value_def b64_char_def index_of_nth b64_alphabet_distinct b64_alphabet_length)

lemma b64_char_mem: "n < 64 \<Longrightarrow> b64_char n \<in> set b64_alphabet"
  unfolding b64_char_def by (rule nth_mem) (simp add: b64_alphabet_length)

lemma b64_char_not_pad: "n < 64 \<Longrightarrow> b64_char n \<noteq> CHR ''=''"
  using b64_alphabet_no_pad b64_char_mem [of n] by metis

lemma b64_char_ascii: "n < 64 \<Longrightarrow> (of_char (b64_char n) :: nat) < 128"
  using b64_alphabet_ascii b64_char_mem [of n]
  by (simp add: is_ascii_def list_all_iff)

lemma byte_div:
  "(of_char a :: nat) div 4 < 64" "(of_char a :: nat) div 16 < 16" "(of_char a :: nat) div 64 < 4"
  by (simp_all add: div_less_iff_less_mult)

lemma sextet2: "((of_char a :: nat) mod 4) * 16 + of_char b div 16 < 64"
proof -
  have "(of_char a :: nat) mod 4 < 4" by simp
  moreover have "(of_char b :: nat) div 16 < 16" by (rule byte_div)
  ultimately show ?thesis by linarith
qed

lemma sextet2_last: "((of_char a :: nat) mod 4) * 16 < 64"
proof -
  have "(of_char a :: nat) mod 4 < 4" by simp
  then show ?thesis by linarith
qed

lemma sextet3: "((of_char b :: nat) mod 16) * 4 + of_char c div 64 < 64"
proof -
  have "(of_char b :: nat) mod 16 < 16" by simp
  moreover have "(of_char c :: nat) div 64 < 4" by (rule byte_div)
  ultimately show ?thesis by linarith
qed

lemma sextet3_last: "((of_char b :: nat) mod 16) * 4 < 64"
proof -
  have "(of_char b :: nat) mod 16 < 16" by simp
  then show ?thesis by linarith
qed

lemma sextet4: "(of_char c :: nat) mod 64 < 64"
  by simp

lemma b64decode_b64encode: "b64decode (b64encode bs) = Inr bs"
proof (induction bs rule: b64encode.induct)
  case 1
  then show ?case by simp
next
  case (2 a)
  then show ?case
    by (simp add: b64_value_char sextet2_last byte_div)
next
  case (3 a b)
  then show ?case
    by (simp add: b64_value_char b64_char_not_pad sextet2 sextet3_last byte_div)
next
  case (4 a b c rest)
  then show ?case
    by (simp add: b64_value_char b64_char_not_pad sextet2 sextet3 byte_div)
qed

lemma is_ascii_b64encode: "is_ascii (b64encode bs)"
proof (induction bs rule: b64encode.induct)
  case 1
  then show ?case by (simp add: is_ascii_def)
next
  case (2 a)
  then show ?case
    using b64_char_ascii [OF byte_div(1) [of a]] b64_char_ascii [OF sextet2_last [of a]]
    by (simp add: is_ascii_def)
next
  case (3 a b)
  then show ?case
    using b64_char_ascii [OF byte_div(1) [of a]] b64_char_ascii [OF sextet2 [of a b]]
      b64_char_ascii [OF sextet3_last [of b]]
    by (simp add: is_ascii_def)
next
  case (4 a b c rest)
  then show ?case
    using b64_char_ascii [OF byte_div(1) [of a]] b64_char_ascii [OF sextet2 [of a b]]
      b64_char_ascii [OF sextet3 [of b c]] b64_char_ascii [OF sextet4 [of c]]
    by (simp add: is_ascii_def)
qed

section \<open>The payload\<close>

lemma build_query_payload_ascii:
  assumes "is_ascii (query self)"
  shows "build_query_payload self =
     (if query_target_location self = ''athena'' then
        Inr (JDict [(''QueryString'', JStr (b64encode (query self))),
                    (''Encoding'', JStr ''base64''),
                    (''WorkGroup'', JStr (work_group self)),
                    (''AssumeRole'', JStr (assume_role self))])
      else
        Inr (JDict [(''QueryString'', JStr (b64encode (query self))),
                    (''Encoding'', JStr ''base64''),
                    (''QueryTargetLocation'', JStr (query_target_location self))]))"
  using assms
  by (simp add: build_query_payload_def encode_ascii_def decode_ascii_def is_ascii_b64encode)

text \<open>
  C4. For every ASCII SQL text the payload is built, and base64-decoding its
  \<^verbatim>\<open>QueryString\<close> field gives the SQL text back, character for character.
\<close>

theorem payload_query_roundtrip:
  assumes "is_ascii (query self)"
  shows "\<exists>p. build_query_payload self = Inr p \<and> decoded_query p = Inr (query self)"
proof (cases "query_target_location self = ''athena''")
  case True
  with assms show ?thesis
    by (simp add: build_query_payload_ascii decoded_query_def b64decode_b64encode decode_ascii_def)
next
  case False
  with assms show ?thesis
    by (simp add: build_query_payload_ascii decoded_query_def b64decode_b64encode decode_ascii_def)
qed

theorem payload_query_roundtrip_witness:
  "is_ascii (query (demo_executor (always (Plain JNull)) 3)) \<and>
   query (demo_executor (always (Plain JNull)) 3) = ''SELECT 1'' \<and>
   (\<exists>p. build_query_payload (demo_executor (always (Plain JNull)) 3) = Inr p \<and>
        decoded_query p = Inr ''SELECT 1'')"
proof -
  have q: "query (demo_executor (always (Plain JNull)) 3) = ''SELECT 1''"
    by (simp add: demo_executor_def PlaygroundQueryExecutor_def)
  have a: "is_ascii (query (demo_executor (always (Plain JNull)) 3))"
    by (simp add: q is_ascii_def)
  show ?thesis
    using payload_query_roundtrip [OF a] a q by simp
qed

text \<open>
  C5. For every request whose SQL text is ASCII the payload is built; with the target
  location \<^verbatim>\<open>athena\<close> its fields are exactly QueryString, Encoding, WorkGroup and
  AssumeRole, with any other target exactly QueryString, Encoding and
  QueryTargetLocation; WorkGroup or AssumeRole never occur together with
  QueryTargetLocation.
\<close>

theorem payload_fields_by_target:
  assumes "is_ascii (query self)"
  shows "\<exists>p. build_query_payload self = Inr p \<and> distinct (dict_keys p) \<and>
           set (dict_keys p) =
             (if query_target_location self = ''athena''
              then {''QueryString'', ''Encoding'', ''WorkGroup'', ''AssumeRole''}
              else {''QueryString'', ''Encoding'', ''QueryTargetLocation''}) \<and>
           \<not> ((''WorkGroup'' \<in> set (dict_keys p) \<or> ''AssumeRole'' \<in> set (dict_keys p)) \<and>
              ''QueryTargetLocation'' \<in> set (dict_keys p))"
proof (cases "query_target_location self = ''athena''")
  case True
  with assms show ?thesis
    by (simp add: build_query_payload_ascii)
next
  case False
  with assms show ?thesis
    by (simp add: build_query_payload_ascii)
qed

theorem payload_fields_by_target_witness:
  "is_ascii (query (demo_executor (always (Plain JNull)) 3)) \<and>
   query_target_location (demo_executor (always (Plain JNull)) 3) = ''athena'' \<and>
   (\<exists>p. build_query_payload (demo_executor (always (Plain JNull)) 3) = Inr p \<and>
        set (dict_keys p) = {''QueryString'', ''Encoding'', ''WorkGroup'', ''AssumeRole''})"
proof -
  have q: "query (demo_executor (always (Plain JNull)) 3) = ''SELECT 1''"
    by (simp add: demo_executor_def PlaygroundQueryExecutor_def)
  have t: "query_target_location (demo_executor (always (Plain JNull)) 3) = ''athena''"
    by (simp add: demo_executor_def PlaygroundQueryExecutor_def)
  have a: "is_ascii (query (demo_executor (always (Plain JNull)) 3))"
    by (simp add: q is_ascii_def)
  show ?thesis
    using payload_fields_by_target [OF a] a t by auto
qed

text \<open>
  Without the restriction to ASCII the statement fails: \<^verbatim>\<open>self.query.encode("ascii")\<close>
  raises on the one-character query U+00E9 and no payload is built.
\<close>

theorem payload_non_ascii_counterexample:
  "build_query_payload
     (PlaygroundQueryExecutor (demo_api (always (Plain JNull))) [CHR 0xE9]
        None (Some ''athena'') None None None) = Inl UnicodeEncodeError"
  by (simp add: build_query_payload_def PlaygroundQueryExecutor_def encode_ascii_def is_ascii_def)

section \<open>Default retry arguments\<close>

lemma map_of_resolve_optional_args:
  "map_of (resolve_optional_args gro argv) k =
     (case map_of optional_args k of
        None \<Rightarrow> None
      | Some v \<Rightarrow> Some (if (''--'' @ k) \<in> set argv \<or> k \<in> set argv then JStr (gro argv k) else v))"
  by (simp add: resolve_optional_args_def optional_args_def)

text \<open>
  C6, as the code has it. When neither \<^verbatim>\<open>query_status_retry\<close> nor
  \<^verbatim>\<open>query_status_retry_delay\<close> is on the command line of the job, \<^verbatim>\<open>main\<close> runs the
  executor with 20 retries and a delay of 15, 300 time units in all.
\<close>

theorem main_default_retry_arguments:
  assumes "''--query_status_retry'' \<notin> set argv" and "''query_status_retry'' \<notin> set argv"
    and "''--query_status_retry_delay'' \<notin> set argv" and "''query_status_retry_delay'' \<notin> set argv"
  shows "\<exists>ex. main_executor getResolvedOptions int_of_str api_arg argv sql = Inr ex \<and>
           retry ex = 20 \<and> delay ex = 15 \<and> retry ex * delay ex = 300"
  using assms
  by (simp add: main_executor_def map_of_resolve_optional_args optional_args_def
      execute_db_query_executor_def PlaygroundQueryExecutor_def)

theorem main_default_retry_arguments_witness:
  "''--query_status_retry'' \<notin> set [''--JOB_NAME'', ''job''] \<and>
   ''query_status_retry'' \<notin> set [''--JOB_NAME'', ''job''] \<and>
   ''--query_status_retry_delay'' \<notin> set [''--JOB_NAME'', ''job''] \<and>
   ''query_status_retry_delay'' \<notin> set [''--JOB_NAME'', ''job''] \<and>
   (\<exists>ex. main_executor (\<lambda>argv k. []) (\<lambda>s. Inl ValueError) (demo_api (always (Plain JNull)))
           [''--JOB_NAME'', ''job''] ''SELECT 1'' = Inr ex \<and>
         retry ex = 20 \<and> delay ex = 15)"
  using main_default_retry_arguments [of "[''--JOB_NAME'', ''job'']" "\<lambda>argv k. []"
      "\<lambda>s. Inl ValueError" "demo_api (always (Plain JNull))" "''SELECT 1''"]
  by auto

text \<open>
  The executor's own constructor defaults are 5 retries and a delay of 60, not 20 and 15.
\<close>

theorem executor_default_retry_counterexample:
  "retry (PlaygroundQueryExecutor (demo_api (always (Plain JNull))) ''SELECT 1''
            None None None None None) = 5 \<and>
   delay (PlaygroundQueryExecutor (demo_api (always (Plain JNull))) ''SELECT 1''
            None None None None None) = 60 \<and>
   \<not> (retry (PlaygroundQueryExecutor (demo_api (always (Plain JNull))) ''SELECT 1''
            None None None None None) = 20 \<and>
      delay (PlaygroundQueryExecutor (demo_api (always (Plain JNull))) ''SELECT 1''
            None None None None None) = 15)"
  by (simp add: PlaygroundQueryExecutor_def)

section \<open>Polling\<close>

declare poll_loop.simps [simp del]

lemma n_requests_simps [simp]:
  "n_requests [] = 0"
  "n_requests (w @ [MakeRequest m u b]) = Suc (n_requests w)"
  "n_requests (w @ [Sleep s]) = n_requests w"
  "n_requests (w @ [Download l]) = n_requests w"
  "n_requests (w @ v) = n_requests w + n_requests v"
  "n_requests (MakeRequest m u b # w) = Suc (n_requests w)"
  "n_requests (Sleep s # w) = n_requests w"
  by (simp_all add: n_requests_def)

lemma n_requests_running_passes [simp]:
  "n_requests (running_passes self u j) = j"
  by (induction j) (simp_all add: running_passes_def n_requests_def)


lemma safe_api_call_eq:
  "safe_api_call self m u b w =
     (if exitcode (snapshot (reply (api self) (n_requests w))) \<noteq> 0
      then Inl (api_error (reply (api self) (n_requests w)))
      else Inr (snapshot (reply (api self) (n_requests w))),
      w @ [MakeRequest m u b])"
  by (simp add: safe_api_call_def make_request_def snapshot_def api_error_def Let_def)

lemma observed_statusD:
  assumes "observed_status r = Some st"
  shows "exitcode (snapshot r) = 0" and "py_get (data (snapshot r)) ''QueryStatus'' = Inr st"
  using assms by (auto simp: observed_status_def split: if_splits sum.splits)

lemma poll_loop_exit:
  "\<not> (query_status = JStr ''RUNNING'' \<and> attempt \<le> retry self) \<Longrightarrow>
   poll_loop self u resp query_status attempt w = (Inr resp, w)"
  by (subst poll_loop.simps) auto






lemma poll_query_status_observed:
  assumes "observed_status (reply (api self) (n_requests w)) = Some st"
  shows "poll_query_status self query_id attempt w =
           poll_loop self (QueryById (url (api self)) query_id)
             (snapshot (reply (api self) (n_requests w))) st attempt
             (w @ [MakeRequest ''GET'' (QueryById (url (api self)) query_id) None, Sleep 20])"
  using observed_statusD [OF assms]
  by (simp add: poll_query_status_def safe_api_call_eq sleep_def)


lemma poll_loop_trace:
  "\<exists>rest. snd (poll_loop self u resp query_status attempt w) = w @ rest \<and>
          (\<forall>e \<in> set rest. is_sleep e \<longrightarrow> e = Sleep (delay self)) \<and>
          n_requests rest \<le> nat (retry self + 1 - attempt)"
proof (induction self u resp query_status attempt w rule: poll_loop.induct)
  case (1 self u resp query_status attempt w)
  show ?case
  proof (cases "query_status = JStr ''RUNNING'' \<and> attempt \<le> retry self")
    case False
    then have "poll_loop self u resp query_status attempt w = (Inr resp, w)"
      by (rule poll_loop_exit)
    then show ?thesis by simp
  next
    case True
    let ?r = "reply (api self) (n_requests w)"
    let ?w1 = "w @ [MakeRequest ''GET'' u None]"
    have call: "safe_api_call self ''GET'' u None w =
        (if exitcode (snapshot ?r) \<noteq> 0 then Inl (api_error ?r) else Inr (snapshot ?r), ?w1)"
      by (rule safe_api_call_eq)
    have pos: "0 < nat (retry self + 1 - attempt)" using True by simp
    consider (rejected) "exitcode (snapshot ?r) \<noteq> 0"
      | (nodict) e where "exitcode (snapshot ?r) = 0" "py_get (data (snapshot ?r)) ''QueryStatus'' = Inl e"
      | (stopped) st where "exitcode (snapshot ?r) = 0" "py_get (data (snapshot ?r)) ''QueryStatus'' = Inr st"
          "st \<noteq> JStr ''RUNNING''"
      | (neg) "exitcode (snapshot ?r) = 0"
          "py_get (data (snapshot ?r)) ''QueryStatus'' = Inr (JStr ''RUNNING'')" "delay self < 0"
      | (again) "exitcode (snapshot ?r) = 0"
          "py_get (data (snapshot ?r)) ''QueryStatus'' = Inr (JStr ''RUNNING'')" "0 \<le> delay self"
      by (cases "py_get (data (snapshot ?r)) ''QueryStatus''") fastforce+
    then show ?thesis
    proof cases
      case rejected
      with True call have "snd (poll_loop self u resp query_status attempt w) = ?w1"
        by (subst poll_loop.simps) simp
      with pos show ?thesis by simp
    next
      case nodict
      with True call have "snd (poll_loop self u resp query_status attempt w) = ?w1"
        by (subst poll_loop.simps) simp
      with pos show ?thesis by simp
    next
      case stopped
      with True call have "snd (poll_loop self u resp query_status attempt w) = ?w1"
        by (subst poll_loop.simps) simp
      with pos show ?thesis by simp
    next
      case neg
      with True call have "snd (poll_loop self u resp query_status attempt w) = ?w1"
        by (subst poll_loop.simps) (simp add: sleep_def)
      with pos show ?thesis by simp
    next
      case again
      let ?w2 = "?w1 @ [Sleep (delay self)]"
      from again True call
      have eq: "poll_loop self u resp query_status attempt w =
          poll_loop self u (snapshot ?r) (JStr ''RUNNING'') (attempt + 1) ?w2"
        by (subst poll_loop.simps) (simp add: sleep_def)
      have "\<exists>rest. snd (poll_loop self u (snapshot ?r) (JStr ''RUNNING'') (attempt + 1) ?w2) = ?w2 @ rest \<and>
          (\<forall>e \<in> set rest. is_sleep e \<longrightarrow> e = Sleep (delay self)) \<and>
          n_requests rest \<le> nat (retry self + 1 - (attempt + 1))"
        using True again call
        by (intro "1.IH" [of "Inr (snapshot ?r)" ?w1 "snapshot ?r"
              "JStr ''RUNNING''" "Inr ()" ?w2 "()"])
           (simp_all add: sleep_def)
      then obtain rest where rest:
        "snd (poll_loop self u (snapshot ?r) (JStr ''RUNNING'') (attempt + 1) ?w2) = ?w2 @ rest"
        "\<forall>e \<in> set rest. is_sleep e \<longrightarrow> e = Sleep (delay self)"
        "n_requests rest \<le> nat (retry self + 1 - (attempt + 1))"
        by blast
      let ?rest' = "MakeRequest ''GET'' u None # Sleep (delay self) # rest"
      have "snd (poll_loop self u resp query_status attempt w) = w @ ?rest'"
        using eq rest(1) by simp
      moreover have "\<forall>e \<in> set ?rest'. is_sleep e \<longrightarrow> e = Sleep (delay self)"
        using rest(2) by simp
      moreover have "n_requests ?rest' \<le> nat (retry self + 1 - attempt)"
      proof -
        have "n_requests ?rest' = Suc (n_requests rest)" by simp
        moreover have "Suc (nat (retry self + 1 - (attempt + 1))) = nat (retry self + 1 - attempt)"
          using True by linarith
        ultimately show ?thesis using rest(3) by linarith
      qed
      ultimately show ?thesis by blast
    qed
  qed
qed

lemma py_getitem_of_get:
  "py_get obj k = Inr v \<Longrightarrow> v \<noteq> JNull \<Longrightarrow> py_getitem obj k = Inr v"
  by (cases obj) (auto simp: py_get_def split: option.splits)




lemma run_submitted:
  assumes "is_ascii (query self)"
    and "exitcode (snapshot (reply (api self) (n_requests w))) = 0"
    and "py_getitem (data (snapshot (reply (api self) (n_requests w)))) ''QueryId'' = Inr query_id"
  shows "\<exists>payload. build_query_payload self = Inr payload \<and>
     run self w =
       (case poll_query_status self query_id 1
               (w @ [MakeRequest ''POST'' (Queries (url (api self))) (Some payload)]) of
          (Inl e, w2) \<Rightarrow> (Inl e, w2)
        | (Inr query_status_response, w2) \<Rightarrow>
            (case py_getitem (data query_status_response) ''QueryStatus'' of
               Inl e \<Rightarrow> (Inl e, w2)
             | Inr st \<Rightarrow>
                 if st = JStr ''SUCCEEDED'' then (Inr query_status_response, w2)
                 else if st = JStr ''RUNNING'' then (Inr query_status_response, w2)
                 else
                   (case py_get (data query_status_response) ''Message'' of
                      Inl e \<Rightarrow> (Inl e, w2)
                    | Inr m \<Rightarrow> (Inl (Exception m), w2))))"
proof -
  from assms(1) obtain payload where p: "build_query_payload self = Inr payload"
    by (cases "query_target_location self = ''athena''") (simp_all add: build_query_payload_ascii)
  show ?thesis
    using assms(2,3) p
    by (simp add: run_def submit_query_def safe_api_call_eq)
qed


lemma demo_executor_simps [simp]:
  "api (demo_executor f n) = demo_api f"
  "query (demo_executor f n) = ''SELECT 1''"
  "work_group (demo_executor f n) = ''primary''"
  "query_target_location (demo_executor f n) = ''athena''"
  "assume_role (demo_executor f n) = ''no''"
  "retry (demo_executor f n) = n"
  "delay (demo_executor f n) = 15"
  "reply (demo_api f) = f"
  "url (demo_api f) = ''https://api.example''"
  by (simp_all add: demo_executor_def demo_api_def PlaygroundQueryExecutor_def)

lemma is_ascii_demo [simp]: "is_ascii ''SELECT 1''"
  by (simp add: is_ascii_def)

lemma snapshot_status_response:
  "snapshot (status_response extra) =
     \<lparr> exitcode = 0, message = Some ''Success'',
       data = JDict ((''QueryId'', JStr ''q-1'') # extra),
       response = Some (status_response extra) \<rparr>"
  by (simp add: snapshot_def custom_json_response_def status_response_def)

lemma observed_status_status_response:
  "observed_status (status_response extra) =
     Some (case map_of extra ''QueryStatus'' of None \<Rightarrow> JNull | Some v \<Rightarrow> v)"
  by (simp add: observed_status_def snapshot_status_response py_get_def)




text \<open>
  C3. Whenever the first status request yields a status, whatever it is,
  \<^verbatim>\<open>poll_query_status\<close> performs exactly that one GET and then sleeps 20 before anything
  else; every later sleep has the length \<^verbatim>\<open>self.delay\<close>, and after a status other than
  RUNNING nothing follows the warm-up sleep.
\<close>

theorem warm_up_sleep_after_first_poll:
  assumes "observed_status (reply (api self) (n_requests w)) = Some st"
  shows "\<exists>rest. snd (poll_query_status self query_id attempt w) =
             w @ [MakeRequest ''GET'' (QueryById (url (api self)) query_id) None, Sleep 20] @ rest \<and>
           (\<forall>e \<in> set rest. is_sleep e \<longrightarrow> e = Sleep (delay self)) \<and>
           (st \<noteq> JStr ''RUNNING'' \<longrightarrow> rest = [])"
proof (cases "st = JStr ''RUNNING''")
  case False
  then show ?thesis
    unfolding poll_query_status_observed [OF assms] by (simp add: poll_loop_exit)
next
  case True
  let ?u = "QueryById (url (api self)) query_id"
  let ?w2 = "w @ [MakeRequest ''GET'' ?u None, Sleep 20]"
  obtain rest where
    "snd (poll_loop self ?u (snapshot (reply (api self) (n_requests w))) st attempt ?w2) = ?w2 @ rest"
    "\<forall>e \<in> set rest. is_sleep e \<longrightarrow> e = Sleep (delay self)"
    using poll_loop_trace by blast
  with True show ?thesis
    unfolding poll_query_status_observed [OF assms] by simp
qed

theorem warm_up_sleep_after_first_poll_witness:
  "observed_status (status_response [(''QueryStatus'', JStr ''FAILED'')]) = Some (JStr ''FAILED'') \<and>
   snd (poll_query_status
          (demo_executor (always (status_response [(''QueryStatus'', JStr ''FAILED'')])) 3)
          (JStr ''q-1'') 1 []) =
     [MakeRequest ''GET'' (QueryById ''https://api.example'' (JStr ''q-1'')) None, Sleep 20]"
proof -
  let ?failed = "status_response [(''QueryStatus'', JStr ''FAILED'')]"
  let ?self = "demo_executor (always ?failed) 3"
  have a: "observed_status (reply (api ?self) (n_requests [])) = Some (JStr ''FAILED'')"
    by (simp add: always_def observed_status_status_response)
  show ?thesis
    using warm_up_sleep_after_first_poll [OF a, of "JStr ''q-1''" 1]
    by (auto simp: observed_status_status_response)
qed

section \<open>Exhausted retries\<close>



lemma demo_running_facts:
  "exitcode (snapshot (status_response extra)) = 0"
  "py_getitem (data (snapshot (status_response extra))) ''QueryId'' = Inr (JStr ''q-1'')"
  by (simp_all add: snapshot_status_response)


section \<open>Classification of the final status\<close>

lemma run_first_poll_terminal:
  assumes "submitted self w query_id"
    and "observed_status (reply (api self) (Suc (n_requests w))) = Some st"
    and "st \<noteq> JStr ''RUNNING''" and "st \<noteq> JStr ''SUCCEEDED''" and "st \<noteq> JNull"
  shows "\<exists>payload m.
     build_query_payload self = Inr payload \<and>
     py_get (data (snapshot (reply (api self) (Suc (n_requests w))))) ''Message'' = Inr m \<and>
     run self w =
       (Inl (Exception m),
        w @ [MakeRequest ''POST'' (Queries (url (api self))) (Some payload),
             MakeRequest ''GET'' (QueryById (url (api self)) query_id) None, Sleep 20])"
proof -
  from assms(1) have sub: "is_ascii (query self)"
    "exitcode (snapshot (reply (api self) (n_requests w))) = 0"
    "py_getitem (data (snapshot (reply (api self) (n_requests w)))) ''QueryId'' = Inr query_id"
    by (simp_all add: submitted_def)
  from run_submitted [OF sub] obtain payload where
    p: "build_query_payload self = Inr payload" and
    r: "run self w =
       (case poll_query_status self query_id 1
               (w @ [MakeRequest ''POST'' (Queries (url (api self))) (Some payload)]) of
          (Inl e, w2) \<Rightarrow> (Inl e, w2)
        | (Inr query_status_response, w2) \<Rightarrow>
            (case py_getitem (data query_status_response) ''QueryStatus'' of
               Inl e \<Rightarrow> (Inl e, w2)
             | Inr st \<Rightarrow>
                 if st = JStr ''SUCCEEDED'' then (Inr query_status_response, w2)
                 else if st = JStr ''RUNNING'' then (Inr query_status_response, w2)
                 else
                   (case py_get (data query_status_response) ''Message'' of
                      Inl e \<Rightarrow> (Inl e, w2)
                    | Inr m \<Rightarrow> (Inl (Exception m), w2))))"
    by blast
  let ?w1 = "w @ [MakeRequest ''POST'' (Queries (url (api self))) (Some payload)]"
  let ?u = "QueryById (url (api self)) query_id"
  let ?snap = "snapshot (reply (api self) (Suc (n_requests w)))"
  have n1: "n_requests ?w1 = Suc (n_requests w)" by simp
  from assms(2) have obs: "observed_status (reply (api self) (n_requests ?w1)) = Some st"
    by (simp add: n1)
  have "poll_query_status self query_id 1 ?w1 =
      poll_loop self ?u (snapshot (reply (api self) (n_requests ?w1))) st 1
        (?w1 @ [MakeRequest ''GET'' ?u None, Sleep 20])"
    by (rule poll_query_status_observed [OF obs])
  also have "\<dots> = (Inr (snapshot (reply (api self) (n_requests ?w1))),
        ?w1 @ [MakeRequest ''GET'' ?u None, Sleep 20])"
    using assms(3) by (simp add: poll_loop_exit)
  finally have poll: "poll_query_status self query_id 1 ?w1 =
      (Inr ?snap, ?w1 @ [MakeRequest ''GET'' ?u None, Sleep 20])"
    by (simp add: n1)
  from assms(2) have get: "py_get (data ?snap) ''QueryStatus'' = Inr st"
    by (rule observed_statusD)
  then have item: "py_getitem (data ?snap) ''QueryStatus'' = Inr st"
    using assms(5) by (rule py_getitem_of_get)
  from get obtain m where m: "py_get (data ?snap) ''Message'' = Inr m"
    by (cases "data ?snap") (simp_all add: py_get_def)
  have "run self w = (Inl (Exception m), ?w1 @ [MakeRequest ''GET'' ?u None, Sleep 20])"
    unfolding r poll using item m assms(3,4) by simp
  with p m show ?thesis by simp
qed

lemma fetch_query_results_raises:
  "run self w = (Inl e, w1) \<Longrightarrow> fetch_query_results read_csv self w = (Inl e, w1)"
  by (simp add: fetch_query_results_def)


lemma submitted_demo:
  "submitted (demo_executor (always (status_response extra)) n) [] (JStr ''q-1'')"
  by (simp add: submitted_def always_def demo_running_facts)


lemma py_get_message_status_response:
  "py_get (data (snapshot (status_response extra))) ''Message'' =
     Inr (case map_of extra ''Message'' of None \<Rightarrow> JNull | Some v \<Rightarrow> v)"
  by (simp add: snapshot_status_response py_get_def)

text \<open>
  C8, at the input where the code departs from it. The remote reports FAILED and sends
  no \<^verbatim>\<open>Message\<close>: \<^verbatim>\<open>run\<close> raises \<^verbatim>\<open>Exception(None)\<close>, and so does
  \<^verbatim>\<open>fetch_query_results\<close>, whose own default \<^verbatim>\<open>"Unknown error"\<close> is never reached.
\<close>

theorem run_failed_without_message:
  "fst (run (demo_executor (always (status_response [(''QueryStatus'', JStr ''FAILED'')])) 3) []) =
     Inl (Exception JNull) \<and>
   fst (fetch_query_results no_download
          (demo_executor (always (status_response [(''QueryStatus'', JStr ''FAILED'')])) 3) []) =
     Inl (Exception JNull)"
proof -
  let ?failed = "status_response [(''QueryStatus'', JStr ''FAILED'')]"
  let ?self = "demo_executor (always ?failed) 3"
  have obs: "observed_status (reply (api ?self) (Suc (n_requests []))) = Some (JStr ''FAILED'')"
    by (simp add: always_def observed_status_status_response)
  from run_first_poll_terminal [OF submitted_demo obs]
  obtain payload w1 where "run ?self [] = (Inl (Exception JNull), w1)"
    by (auto simp: always_def py_get_message_status_response)
  then show ?thesis
    by (simp add: fetch_query_results_raises)
qed

text \<open>
  C9, at the input where the code departs from it. The remote reports the status
  CANCELLED: \<^verbatim>\<open>run\<close> raises with the remote message, so \<^verbatim>\<open>fetch_query_results\<close> raises
  too and its last branch, which would return without data, is never reached.
\<close>

theorem fetch_query_results_unknown_status_raises:
  "fst (fetch_query_results no_download
          (demo_executor
             (always (status_response [(''QueryStatus'', JStr ''CANCELLED''),
                                       (''Message'', JStr ''cancelled by user'')])) 3) []) =
     Inl (Exception (JStr ''cancelled by user''))"
proof -
  let ?cancelled = "status_response [(''QueryStatus'', JStr ''CANCELLED''),
                                     (''Message'', JStr ''cancelled by user'')]"
  let ?self = "demo_executor (always ?cancelled) 3"
  have obs: "observed_status (reply (api ?self) (Suc (n_requests []))) = Some (JStr ''CANCELLED'')"
    by (simp add: always_def observed_status_status_response)
  from run_first_poll_terminal [OF submitted_demo obs]
  obtain payload w1 where "run ?self [] = (Inl (Exception (JStr ''cancelled by user'')), w1)"
    by (auto simp: always_def py_get_message_status_response)
  then show ?thesis
    by (simp add: fetch_query_results_raises)
qed





section \<open>The API contract\<close>







text \<open>
  What \<^verbatim>\<open>_safe_api_call\<close> accepts: status 200 with a JSON body, and besides it an object
  that has no \<^verbatim>\<open>status_code\<close> at all and a response whose \<^verbatim>\<open>status_code\<close> is 0 (no HTTP
  status code is 0).
\<close>

lemma plain_object_accepted:
  "reply (api self) (n_requests w) = Plain obj \<Longrightarrow>
   fst (safe_api_call self method u b w) =
     Inr \<lparr> exitcode = 0, message = None, data = obj, response = None \<rparr>"
  by (simp add: safe_api_call_eq snapshot_def custom_json_response_def)

lemma status_code_zero_accepted:
  "reply (api self) (n_requests w) = Response 0 reason (Inr d) \<Longrightarrow>
   fst (safe_api_call self method u b w) =
     Inr \<lparr> exitcode = 0, message = Some (''Failed with error '' @ reason), data = d,
           response = Some (Response 0 reason (Inr d)) \<rparr>"
  by (simp add: safe_api_call_eq snapshot_def custom_json_response_def)

lemma status_200_accepted:
  "reply (api self) (n_requests w) = Response 200 reason (Inr d) \<Longrightarrow>
   fst (safe_api_call self method u b w) =
     Inr \<lparr> exitcode = 0, message = Some ''Success'', data = d,
           response = Some (Response 200 reason (Inr d)) \<rparr>"
  by (simp add: safe_api_call_eq snapshot_def custom_json_response_def)

end
